theory Spec2Isabelle
  imports Complex_Main
begin

section \<open>Conventions of the embedding\<close>

text \<open>
  The Go sources of the backtester are embedded function by function.
  \<^item> A \<^verbatim>\<open>float64\<close> is a \<^typ>\<open>real\<close>: rounding, infinities and NaN are outside the
    model. The sources guard every float division against a zero divisor except two: the
    division by \<open>aSafe\<close> in \<open>calculateNewTotalKlines\<close> and the division by the close
    in \<open>openPosition\<close>. Go evaluates these to an infinity or NaN, HOL to 0; the
    theorems below that range over all inputs hold for any number in the quotient's place.
  \<^item> A Go \<^verbatim>\<open>int\<close> is an \<^typ>\<open>int\<close>; the 64-bit wrap-around is not modelled.
  \<^item> A run-time panic is the left summand of a result \<open>panic + 'a\<close>.
  \<^item> A slice that is re-sliced is a value with its visible elements and the rest of its
    backing array, since Go checks the bounds of \<^verbatim>\<open>s[lo:hi]\<close> against the capacity.
    A slice that is only indexed and measured with \<^verbatim>\<open>len\<close> is the list of its
    elements. Candle pointers are taken to be non-nil.
\<close>

datatype panic = SliceBoundsOutOfRange | IndexOutOfRange

definition bnd :: "panic + 'a \<Rightarrow> ('a \<Rightarrow> panic + 'b) \<Rightarrow> panic + 'b" where
  "bnd m f = (case m of Inl e \<Rightarrow> Inl e | Inr v \<Rightarrow> f v)"

record 'a slice =
  elems :: "'a list"
  spare :: "'a list"

text \<open>A freshly built slice whose capacity equals its length.\<close>

definition slice_of :: "'a list \<Rightarrow> 'a slice" where
  "slice_of xs = \<lparr>elems = xs, spare = []\<rparr>"

text \<open>The slice expression \<^verbatim>\<open>s[lo:hi]\<close>: it panics unless \<open>0 \<le> lo \<le> hi \<le> cap(s)\<close>.\<close>

definition reslice :: "'a slice \<Rightarrow> int \<Rightarrow> int \<Rightarrow> panic + 'a slice" where
  "reslice s lo hi =
     (let backing = elems s @ spare s in
      if 0 \<le> lo \<and> lo \<le> hi \<and> hi \<le> int (length backing)
      then Inr \<lparr>elems = take (nat (hi - lo)) (drop (nat lo) backing),
                spare = drop (nat hi) backing\<rparr>
      else Inl SliceBoundsOutOfRange)"

text \<open>The index expression \<^verbatim>\<open>xs[i]\<close>: it panics unless \<open>0 \<le> i < len(xs)\<close>.\<close>

definition index_at :: "'a list \<Rightarrow> int \<Rightarrow> panic + 'a" where
  "index_at xs i = (if 0 \<le> i \<and> i < int (length xs) then Inr (xs ! nat i) else Inl IndexOutOfRange)"

text \<open>The conversion \<^verbatim>\<open>int(x)\<close> of a float: truncation towards zero.\<close>

definition float_to_int :: "real \<Rightarrow> int" where
  "float_to_int x = (if 0 \<le> x then \<lfloor>x\<rfloor> else \<lceil>x\<rceil>)"

section \<open>Data model (internal/models)\<close>

text \<open>
  Of \<^verbatim>\<open>Candle\<close> the fields \<^verbatim>\<open>ID\<close>, \<^verbatim>\<open>Symbol\<close> and \<^verbatim>\<open>Interval\<close>, and of
  \<^verbatim>\<open>StrategyConfig\<close> the fields that no embedded function reads, are left out.
\<close>

record Candle =
  Timestamp :: int
  Open :: real
  High :: real
  Low :: real
  Close :: real
  Volume :: real

record StrategyConfig =
  TotalKlines :: int
  CustomAmplitude :: real
  SecondCFEnv :: real
  Epsilon :: real
  NewTotalKlinesMin :: int
  NewTotalKlinesMax :: int
  SecondTotalKlinesMin :: int
  ADXThreshold :: real

section \<open>Capital Flow calculator (internal/strategy/cf\_calculator.go)\<close>

fun findMaxHigh :: "Candle list \<Rightarrow> real" where
  "findMaxHigh [] = 0"
| "findMaxHigh (c # cs) =
     fold (\<lambda>candle maxHigh. if High candle > maxHigh then High candle else maxHigh) cs (High c)"

fun findMinLow :: "Candle list \<Rightarrow> real" where
  "findMinLow [] = 0"
| "findMinLow (c # cs) =
     fold (\<lambda>candle minLow. if Low candle < minLow then Low candle else minLow) cs (Low c)"

definition clamp :: "int \<Rightarrow> int \<Rightarrow> int \<Rightarrow> int" where
  "clamp v lo hi = (if v < lo then lo else if v > hi then hi else v)"

definition calculateNewTotalKlines :: "StrategyConfig \<Rightarrow> Candle slice \<Rightarrow> int \<Rightarrow> panic + int" where
  "calculateNewTotalKlines cfg candles t =
     (let totalKlines = TotalKlines cfg in
      bnd (reslice candles (t - totalKlines + 1) (t + 1)) (\<lambda>window.
        let highWindow = findMaxHigh (elems window);
            lowWindow = findMinLow (elems window)
        in if lowWindow = 0 then Inr totalKlines
           else
             let aCurrent = (highWindow - lowWindow) / lowWindow;
                 aSafe = max aCurrent (Epsilon cfg);
                 newTotalKlinesFloat = real_of_int totalKlines * CustomAmplitude cfg / aSafe;
                 newTotalKlines = float_to_int newTotalKlinesFloat
             in Inr (clamp newTotalKlines (NewTotalKlinesMin cfg) (NewTotalKlinesMax cfg))))"

definition calculateCF :: "Candle list \<Rightarrow> real \<Rightarrow> real" where
  "calculateCF window prevCF =
     (if length window < 4 then prevCF
      else
        let half = length window div 2;
            segment1 = take half window;
            segment2 = drop half window;
            h1 = findMaxHigh segment1;
            l1 = findMinLow segment1;
            h2 = findMaxHigh segment2;
            l2 = findMinLow segment2;
            hCF = (if h1 \<noteq> 0 then ((h2 - h1) / h1) * 100 else 0);
            lCF = (if l1 \<noteq> 0 then ((l2 - l1) / l1) * 100 else 0)
        in (hCF + lCF) / 2)"

definition CalculateMainCF ::
  "StrategyConfig \<Rightarrow> Candle slice \<Rightarrow> int \<Rightarrow> real \<Rightarrow> panic + (real \<times> int)" where
  "CalculateMainCF cfg candles t prevCF =
     (if t < TotalKlines cfg then Inr (0, TotalKlines cfg)
      else
        bnd (calculateNewTotalKlines cfg candles t) (\<lambda>newTotalKlines.
        bnd (reslice candles (t - newTotalKlines + 1) (t + 1)) (\<lambda>window.
          Inr (calculateCF (elems window) prevCF, newTotalKlines))))"

definition calculateSecondTotalKlines :: "StrategyConfig \<Rightarrow> real \<Rightarrow> int \<Rightarrow> int" where
  "calculateSecondTotalKlines cfg mainCFEntry prevSecondTotalKlines =
     (if mainCFEntry = 0 \<or> SecondCFEnv cfg = 0 then SecondTotalKlinesMin cfg
      else
        let divisor = mainCFEntry * SecondCFEnv cfg in
        if divisor = 0 then prevSecondTotalKlines
        else
          let secondTotalKlinesFloat = real_of_int prevSecondTotalKlines / \<bar>divisor\<bar>;
              secondTotalKlines = float_to_int secondTotalKlinesFloat
          in if secondTotalKlines < SecondTotalKlinesMin cfg then SecondTotalKlinesMin cfg
             else secondTotalKlines)"

definition CalculateSecondCF ::
  "StrategyConfig \<Rightarrow> Candle slice \<Rightarrow> int \<Rightarrow> real \<Rightarrow> int \<Rightarrow> panic + (real \<times> int)" where
  "CalculateSecondCF cfg candles entryIdx mainCFEntry prevSecondTotalKlines =
     (let secondTotalKlines = calculateSecondTotalKlines cfg mainCFEntry prevSecondTotalKlines in
      if entryIdx + secondTotalKlines \<ge> int (length (elems candles)) then Inr (0, secondTotalKlines)
      else
        bnd (reslice candles entryIdx (entryIdx + secondTotalKlines)) (\<lambda>window.
          Inr (calculateCF (elems window) 0, secondTotalKlines)))"

section \<open>Volatility and trend indicators (package strategy: ATR, ADX)\<close>

text \<open>
  The loops of both calculators fill arrays from index 0 upwards, each entry from the raw
  series at the same index and from the entry before it. An array is embedded as the
  function from the index to the entry, and the returned slice is that function mapped
  over \<open>[0..<n]\<close>.
\<close>

text \<open>\<^verbatim>\<open>tr[i]\<close>, as both calculators compute it.\<close>

definition trueRange :: "Candle list \<Rightarrow> nat \<Rightarrow> real" where
  "trueRange candles i =
     (if i = 0 then High (candles ! 0) - Low (candles ! 0)
      else
        let highLow = High (candles ! i) - Low (candles ! i);
            highPrevClose = \<bar>High (candles ! i) - Close (candles ! (i - 1))\<bar>;
            lowPrevClose = \<bar>Low (candles ! i) - Close (candles ! (i - 1))\<bar>
        in max highLow (max highPrevClose lowPrevClose))"

text \<open>
  The recurrence \<^verbatim>\<open>out[0] = x[0]; out[i] = alpha*x[i] + (1-alpha)*out[i-1]\<close> that the
  sources write out for ATR, the three smoothed series and ADX.
\<close>

fun ema :: "real \<Rightarrow> (nat \<Rightarrow> real) \<Rightarrow> nat \<Rightarrow> real" where
  "ema alpha x 0 = x 0"
| "ema alpha x (Suc i) = alpha * x (Suc i) + (1 - alpha) * ema alpha x i"

definition smoothing :: "int \<Rightarrow> real" where
  "smoothing period = 2 / real_of_int (period + 1)"

definition ATR_Calculate :: "int \<Rightarrow> Candle list \<Rightarrow> real list" where
  "ATR_Calculate period candles =
     (if length candles < 2 then replicate (length candles) 0
      else map (ema (smoothing period) (trueRange candles)) [0..<length candles])"

definition plusDM :: "Candle list \<Rightarrow> nat \<Rightarrow> real" where
  "plusDM candles i =
     (if i = 0 then 0
      else
        let highDiff = High (candles ! i) - High (candles ! (i - 1));
            lowDiff = Low (candles ! (i - 1)) - Low (candles ! i)
        in if highDiff > lowDiff \<and> highDiff > 0 then highDiff else 0)"

definition minusDM :: "Candle list \<Rightarrow> nat \<Rightarrow> real" where
  "minusDM candles i =
     (if i = 0 then 0
      else
        let highDiff = High (candles ! i) - High (candles ! (i - 1));
            lowDiff = Low (candles ! (i - 1)) - Low (candles ! i)
        in if lowDiff > highDiff \<and> lowDiff > 0 then lowDiff else 0)"

definition smoothedPlusDM :: "int \<Rightarrow> Candle list \<Rightarrow> nat \<Rightarrow> real" where
  "smoothedPlusDM period candles = ema (smoothing period) (plusDM candles)"

definition smoothedMinusDM :: "int \<Rightarrow> Candle list \<Rightarrow> nat \<Rightarrow> real" where
  "smoothedMinusDM period candles = ema (smoothing period) (minusDM candles)"

definition smoothedTR :: "int \<Rightarrow> Candle list \<Rightarrow> nat \<Rightarrow> real" where
  "smoothedTR period candles = ema (smoothing period) (trueRange candles)"

definition plusDI_at :: "int \<Rightarrow> Candle list \<Rightarrow> nat \<Rightarrow> real" where
  "plusDI_at period candles i =
     (if smoothedTR period candles i \<noteq> 0
      then (smoothedPlusDM period candles i / smoothedTR period candles i) * 100 else 0)"

definition minusDI_at :: "int \<Rightarrow> Candle list \<Rightarrow> nat \<Rightarrow> real" where
  "minusDI_at period candles i =
     (if smoothedTR period candles i \<noteq> 0
      then (smoothedMinusDM period candles i / smoothedTR period candles i) * 100 else 0)"

definition dx_at :: "int \<Rightarrow> Candle list \<Rightarrow> nat \<Rightarrow> real" where
  "dx_at period candles i =
     (let diSum = plusDI_at period candles i + minusDI_at period candles i in
      if diSum \<noteq> 0
      then
        let diDiff = \<bar>plusDI_at period candles i - minusDI_at period candles i\<bar>
        in (diDiff / diSum) * 100
      else 0)"

definition ADX_Calculate :: "int \<Rightarrow> Candle list \<Rightarrow> real list \<times> real list \<times> real list" where
  "ADX_Calculate period candles =
     (let n = length candles in
      if n < 2 then (replicate n 0, replicate n 0, replicate n 0)
      else (map (ema (smoothing period) (dx_at period candles)) [0..<n],
            map (plusDI_at period candles) [0..<n],
            map (minusDI_at period candles) [0..<n]))"

text \<open>
  \<^verbatim>\<open>CalculateATRPercent\<close>; the engine passes the ATR series of the same candles, which
  has their length.
\<close>

definition CalculateATRPercent :: "Candle list \<Rightarrow> real list \<Rightarrow> real list" where
  "CalculateATRPercent candles atr =
     map (\<lambda>i. if Close (candles ! i) \<noteq> 0 then (atr ! i / Close (candles ! i)) * 100 else 0)
         [0..<length candles]"

section \<open>Backtesting engine (internal/backtester/engine.go)\<close>

subsection \<open>Indicator pass\<close>

text \<open>
  \<^verbatim>\<open>calculateCFIndicators\<close> calls \<^verbatim>\<open>CalculateMainCF(candles[:i+1], i, 0, 0)\<close> and
  \<^verbatim>\<open>CalculateSecondCF(candles[:i+1], i, 0)\<close> and stores one number per call. Against the
  calculator's signatures the first call has one argument too many and the second one too
  few. The embedding passes \<open>prevCF = 0\<close> and \<open>mainCFEntry = 0\<close>, stores the first
  component of each result, and takes the absent \<^verbatim>\<open>prevSecondTotalKlines\<close> as the
  parameter \<open>prevSecond\<close>.
\<close>

fun cfLoop ::
  "StrategyConfig \<Rightarrow> int \<Rightarrow> Candle slice \<Rightarrow> nat list \<Rightarrow> real list \<times> real list
     \<Rightarrow> panic + (real list \<times> real list)" where
  "cfLoop cfg prevSecond candles [] (mainCF, secondCF) = Inr (mainCF, secondCF)"
| "cfLoop cfg prevSecond candles (i # rest) (mainCF, secondCF) =
     (if i = 0 then cfLoop cfg prevSecond candles rest (mainCF, secondCF)
      else
        bnd (reslice candles 0 (int i + 1)) (\<lambda>pre.
        bnd (CalculateMainCF cfg pre (int i) 0) (\<lambda>m.
        bnd (reslice candles 0 (int i + 1)) (\<lambda>pre'.
        bnd (CalculateSecondCF cfg pre' (int i) 0 prevSecond) (\<lambda>s.
          cfLoop cfg prevSecond candles rest (mainCF[i := fst m], secondCF[i := fst s]))))))"

definition calculateCFIndicators ::
  "StrategyConfig \<Rightarrow> int \<Rightarrow> Candle slice \<Rightarrow> panic + (real list \<times> real list)" where
  "calculateCFIndicators cfg prevSecond candles =
     (let n = length (elems candles) in
      cfLoop cfg prevSecond candles [0..<n] (replicate n 0, replicate n 0))"

subsection \<open>Positions, trades and the result\<close>

text \<open>
  \<^verbatim>\<open>Position\<close> and \<^verbatim>\<open>Trade\<close> share field names in the source; the fields of
  \<^verbatim>\<open>Position\<close> carry the prefix \<open>P\<close> here. Times are the candles' timestamps.
\<close>

record Position =
  PSide :: string
  PEntryPrice :: real
  PEntryTime :: int
  PSize :: real
  StopLoss :: real
  TakeProfit :: real

record Trade =
  Side :: string
  EntryPrice :: real
  EntryTime :: int
  ExitPrice :: real
  ExitTime :: int
  Size :: real
  PnL :: real

record BacktestResult =
  TotalTrades :: int
  WinningTrades :: int
  LosingTrades :: int
  WinRate :: real
  TotalPnL :: real
  TotalReturn :: real
  Metrics :: "string \<rightharpoonup> real"

text \<open>\<^verbatim>\<open>&models.BacktestResult{Metrics: make(map[string]float64)}\<close>\<close>

definition newResult :: BacktestResult where
  "newResult = \<lparr>TotalTrades = 0, WinningTrades = 0, LosingTrades = 0, WinRate = 0,
                 TotalPnL = 0, TotalReturn = 0, Metrics = Map.empty\<rparr>"

text \<open>Reading a Go map yields the zero value for an absent key.\<close>

definition mapGet :: "(string \<rightharpoonup> real) \<Rightarrow> string \<Rightarrow> real" where
  "mapGet m k = (case m k of None \<Rightarrow> 0 | Some v \<Rightarrow> v)"

subsection \<open>Signals\<close>

text \<open>Comparison of two operands that may panic, and the short-circuit \<^verbatim>\<open>&&\<close>.\<close>

definition cmp :: "(real \<Rightarrow> real \<Rightarrow> bool) \<Rightarrow> panic + real \<Rightarrow> panic + real \<Rightarrow> panic + bool" where
  "cmp rel a b = bnd a (\<lambda>x. bnd b (\<lambda>y. Inr (rel x y)))"

definition andalso :: "panic + bool \<Rightarrow> panic + bool \<Rightarrow> panic + bool" where
  "andalso a b = bnd a (\<lambda>x. if x then b else Inr False)"

definition checkEntrySignal ::
  "int \<Rightarrow> real list \<Rightarrow> real list \<Rightarrow> real list \<Rightarrow> real list \<Rightarrow> real list \<Rightarrow> real list
     \<Rightarrow> StrategyConfig \<Rightarrow> panic + string" where
  "checkEntrySignal idx mainCF secondCF adx plusDI minusDI atrPercent cfg =
     (if idx < 2 then Inr ''''
      else
        bnd (andalso (cmp (\<lambda>x y. x > y) (index_at mainCF idx) (Inr 0))
                     (cmp (\<lambda>x y. x \<le> y) (index_at mainCF (idx - 1)) (Inr 0))) (\<lambda>crossUp.
        bnd (if crossUp
             then andalso (cmp (\<lambda>x y. x > y) (index_at adx idx) (Inr (ADXThreshold cfg)))
                          (cmp (\<lambda>x y. x > y) (index_at plusDI idx) (index_at minusDI idx))
             else Inr False) (\<lambda>long.
        if long then Inr ''LONG''
        else
          bnd (andalso (cmp (\<lambda>x y. x < y) (index_at mainCF idx) (Inr 0))
                       (cmp (\<lambda>x y. x \<ge> y) (index_at mainCF (idx - 1)) (Inr 0))) (\<lambda>crossDown.
          bnd (if crossDown
               then andalso (cmp (\<lambda>x y. x > y) (index_at adx idx) (Inr (ADXThreshold cfg)))
                            (cmp (\<lambda>x y. x > y) (index_at minusDI idx) (index_at plusDI idx))
               else Inr False) (\<lambda>short.
          if short then Inr ''SHORT'' else Inr '''')))))"

definition openPosition :: "string \<Rightarrow> Candle \<Rightarrow> real \<Rightarrow> real \<Rightarrow> Position" where
  "openPosition signal candle atr balance =
     \<lparr>PSide = signal,
      PEntryPrice = Close candle,
      PEntryTime = Timestamp candle,
      PSize = balance * 0.1 / Close candle,
      StopLoss = (if signal = ''LONG'' then Close candle - 2 * atr else Close candle + 2 * atr),
      TakeProfit = (if signal = ''LONG'' then Close candle + 3 * atr else Close candle - 3 * atr)\<rparr>"

definition checkExitSignal :: "int \<Rightarrow> Position \<Rightarrow> Candle \<Rightarrow> real \<Rightarrow> bool" where
  "checkExitSignal idx position candle atr =
     (if PSide position = ''LONG''
      then (if Low candle \<le> StopLoss position \<or> High candle \<ge> TakeProfit position
            then True else False)
      else (if High candle \<ge> StopLoss position \<or> Low candle \<le> TakeProfit position
            then True else False))"

definition closePosition :: "Position \<Rightarrow> Candle \<Rightarrow> Trade" where
  "closePosition position candle =
     (let exitPrice =
        (if PSide position = ''LONG''
         then (if Low candle \<le> StopLoss position then StopLoss position
               else if High candle \<ge> TakeProfit position then TakeProfit position
               else Close candle)
         else (if High candle \<ge> StopLoss position then StopLoss position
               else if Low candle \<le> TakeProfit position then TakeProfit position
               else Close candle))
      in \<lparr>Side = PSide position,
          EntryPrice = PEntryPrice position,
          EntryTime = PEntryTime position,
          ExitPrice = exitPrice,
          ExitTime = Timestamp candle,
          Size = PSize position,
          PnL = 0\<rparr>)"

subsection \<open>The walk-forward simulation\<close>

record Sim =
  currentPosition :: "Position option"
  currentBalance :: real
  trades :: "Trade list"

text \<open>
  The block that \<^verbatim>\<open>executeBacktest\<close> runs on an exit inside the loop and once more for
  the position still open after the loop: close, credit the balance, set the trade's
  \<^verbatim>\<open>PnL\<close>, append the trade.
\<close>

definition bookClose :: "Sim \<Rightarrow> Position \<Rightarrow> Candle \<Rightarrow> Sim" where
  "bookClose st position candle =
     (let trade = closePosition position candle;
          balance = currentBalance st + ExitPrice trade * PSize position;
          pnl = (ExitPrice trade - EntryPrice trade) * PSize position;
          trade' = trade\<lparr>PnL := (if PSide position = ''SHORT'' then - pnl else pnl)\<rparr>
      in \<lparr>currentPosition = currentPosition st, currentBalance = balance,
          trades = trades st @ [trade']\<rparr>)"

definition tradingStep ::
  "Candle list \<Rightarrow> real list \<Rightarrow> real list \<Rightarrow> real list \<Rightarrow> real list \<Rightarrow> real list \<Rightarrow> real list
     \<Rightarrow> real list \<Rightarrow> StrategyConfig \<Rightarrow> nat \<Rightarrow> Sim \<Rightarrow> panic + Sim" where
  "tradingStep candles mainCF secondCF atr atrPercent adx plusDI minusDI cfg i st =
     bnd (index_at candles (int i)) (\<lambda>candle.
       case currentPosition st of
         None \<Rightarrow>
           bnd (checkEntrySignal (int i) mainCF secondCF adx plusDI minusDI atrPercent cfg)
             (\<lambda>signal.
           if signal \<noteq> ''''
           then bnd (index_at atr (int i)) (\<lambda>a.
                  let position = openPosition signal candle a (currentBalance st)
                  in Inr (st\<lparr>currentPosition := Some position,
                             currentBalance := currentBalance st - PSize position * Close candle\<rparr>))
           else Inr st)
       | Some position \<Rightarrow>
           bnd (index_at atr (int i)) (\<lambda>a.
           if checkExitSignal (int i) position candle a
           then Inr ((bookClose st position candle)\<lparr>currentPosition := None\<rparr>)
           else Inr st))"

fun tradingLoop ::
  "Candle list \<Rightarrow> real list \<Rightarrow> real list \<Rightarrow> real list \<Rightarrow> real list \<Rightarrow> real list \<Rightarrow> real list
     \<Rightarrow> real list \<Rightarrow> StrategyConfig \<Rightarrow> nat list \<Rightarrow> Sim \<Rightarrow> panic + Sim" where
  "tradingLoop candles mainCF secondCF atr atrPercent adx plusDI minusDI cfg [] st = Inr st"
| "tradingLoop candles mainCF secondCF atr atrPercent adx plusDI minusDI cfg (i # rest) st =
     bnd (tradingStep candles mainCF secondCF atr atrPercent adx plusDI minusDI cfg i st)
       (tradingLoop candles mainCF secondCF atr atrPercent adx plusDI minusDI cfg rest)"

definition initialBalance :: real where
  "initialBalance = 10000"

text \<open>
  \<^verbatim>\<open>executeBacktest\<close> up to the call of \<^verbatim>\<open>calculateMetrics\<close>: the loop from index 1
  and the closing of a position that is still open against the last candle.
\<close>

definition simulate ::
  "Candle list \<Rightarrow> real list \<Rightarrow> real list \<Rightarrow> real list \<Rightarrow> real list \<Rightarrow> real list \<Rightarrow> real list
     \<Rightarrow> real list \<Rightarrow> StrategyConfig \<Rightarrow> panic + Sim" where
  "simulate candles mainCF secondCF atr atrPercent adx plusDI minusDI cfg =
     bnd (tradingLoop candles mainCF secondCF atr atrPercent adx plusDI minusDI cfg
            [1..<length candles]
            \<lparr>currentPosition = None, currentBalance = initialBalance, trades = []\<rparr>)
       (\<lambda>st.
     case currentPosition st of
       None \<Rightarrow> Inr st
     | Some position \<Rightarrow>
         bnd (index_at candles (int (length candles) - 1)) (\<lambda>lastCandle.
           Inr (bookClose st position lastCandle)))"

definition tally :: "Trade list \<Rightarrow> int \<times> int \<times> real \<times> real" where
  "tally ts =
     fold (\<lambda>trade (winningTrades, losingTrades, totalProfit, totalLoss).
             if PnL trade > 0
             then (winningTrades + 1, losingTrades, totalProfit + PnL trade, totalLoss)
             else (winningTrades, losingTrades + 1, totalProfit, totalLoss + PnL trade))
          ts (0, 0, 0, 0)"

definition calculateMetrics :: "BacktestResult \<Rightarrow> Trade list \<Rightarrow> real \<Rightarrow> real \<Rightarrow> BacktestResult" where
  "calculateMetrics result ts initBalance finalBalance =
     (let r1 = result\<lparr>TotalTrades := int (length ts)\<rparr> in
      if TotalTrades r1 = 0 then r1
      else
        case tally ts of (winningTrades, losingTrades, totalProfit, totalLoss) \<Rightarrow>
        let r2 = r1\<lparr>WinningTrades := winningTrades, LosingTrades := losingTrades,
                    WinRate := real_of_int winningTrades / real_of_int (TotalTrades r1) * 100\<rparr>;
            r3 = (if winningTrades > 0
                  then r2\<lparr>Metrics := (Metrics r2)(''avg_win'' \<mapsto> totalProfit / real_of_int winningTrades)\<rparr>
                  else r2);
            r4 = (if losingTrades > 0
                  then r3\<lparr>Metrics := (Metrics r3)(''avg_loss'' \<mapsto> totalLoss / real_of_int losingTrades)\<rparr>
                  else r3);
            r5 = r4\<lparr>TotalPnL := finalBalance - initBalance,
                    TotalReturn := (finalBalance / initBalance - 1) * 100\<rparr>
        in if mapGet (Metrics r5) ''avg_loss'' \<noteq> 0
           then r5\<lparr>Metrics := (Metrics r5)(''profit_factor'' \<mapsto> totalProfit / (- totalLoss))\<rparr>
           else r5)"

definition executeBacktest ::
  "Candle list \<Rightarrow> real list \<Rightarrow> real list \<Rightarrow> real list \<Rightarrow> real list \<Rightarrow> real list \<Rightarrow> real list
     \<Rightarrow> real list \<Rightarrow> StrategyConfig \<Rightarrow> panic + BacktestResult" where
  "executeBacktest candles mainCF secondCF atr atrPercent adx plusDI minusDI cfg =
     bnd (simulate candles mainCF secondCF atr atrPercent adx plusDI minusDI cfg) (\<lambda>st.
       Inr (calculateMetrics newResult (trades st) initialBalance (currentBalance st)))"

section \<open>Notions used in the statements\<close>

text \<open>A candle is well-formed when its low, close and high are in this order.\<close>

definition wellFormed :: "Candle \<Rightarrow> bool" where
  "wellFormed c = (Low c \<le> High c \<and> Low c \<le> Close c \<and> Close c \<le> High c)"




text \<open>The open position, if any, was entered on one of the first \<open>k\<close> candles.\<close>

definition enteredBefore :: "Candle list \<Rightarrow> nat \<Rightarrow> Sim \<Rightarrow> bool" where
  "enteredBefore candles k st =
     (case currentPosition st of
        None \<Rightarrow> True
      | Some p \<Rightarrow> PEntryTime p \<in> set (map Timestamp (take k candles)))"

definition exitsAfterEntry :: "Trade \<Rightarrow> bool" where
  "exitsAfterEntry tr = (EntryTime tr < ExitTime tr)"

section \<open>Concrete inputs\<close>

text \<open>Candles and configurations at which the theorems below are evaluated.\<close>

definition mkCandle :: "int \<Rightarrow> real \<Rightarrow> real \<Rightarrow> real \<Rightarrow> Candle" where
  "mkCandle ts h l c = \<lparr>Timestamp = ts, Open = c, High = h, Low = l, Close = c, Volume = 0\<rparr>"

text \<open>A quiet market: five candles with high = low = close = 1.\<close>

definition quiet5 :: "Candle list" where
  "quiet5 = [mkCandle 1 1 1 1, mkCandle 2 1 1 1, mkCandle 3 1 1 1, mkCandle 4 1 1 1,
             mkCandle 5 1 1 1]"

text \<open>Five candles whose lows are 0.\<close>

definition zeroLow5 :: "Candle list" where
  "zeroLow5 = [mkCandle 1 1 0 1, mkCandle 2 1 0 1, mkCandle 3 1 0 1, mkCandle 4 1 0 1,
               mkCandle 5 1 0 1]"

text \<open>Five rising candles.\<close>

definition rising5 :: "Candle list" where
  "rising5 = [mkCandle 1 10 8 9, mkCandle 2 11 9 10, mkCandle 3 12 10 11, mkCandle 4 13 11 12,
              mkCandle 5 14 12 13]"

text \<open>Base window 4, adaptive window between 2 and 8.\<close>

definition cfgGrow :: StrategyConfig where
  "cfgGrow = \<lparr>TotalKlines = 4, CustomAmplitude = 0.02, SecondCFEnv = 1, Epsilon = 0.001,
     NewTotalKlinesMin = 2, NewTotalKlinesMax = 8, SecondTotalKlinesMin = 1, ADXThreshold = 25\<rparr>"

text \<open>Base window 4, adaptive window between 5 and 8.\<close>

definition cfgAbove :: StrategyConfig where
  "cfgAbove = \<lparr>TotalKlines = 4, CustomAmplitude = 0.02, SecondCFEnv = 1, Epsilon = 0.001,
     NewTotalKlinesMin = 5, NewTotalKlinesMax = 8, SecondTotalKlinesMin = 1, ADXThreshold = 25\<rparr>"

text \<open>Base window 4, bounds the wrong way round: minimum 5, maximum 3.\<close>

definition cfgInverted :: StrategyConfig where
  "cfgInverted = \<lparr>TotalKlines = 4, CustomAmplitude = 0.02, SecondCFEnv = 1, Epsilon = 0.001,
     NewTotalKlinesMin = 5, NewTotalKlinesMax = 3, SecondTotalKlinesMin = 1, ADXThreshold = 25\<rparr>"

text \<open>Base window 4, adaptive window between 2 and 4, target amplitude 0.6.\<close>

definition cfgWithin :: StrategyConfig where
  "cfgWithin = \<lparr>TotalKlines = 4, CustomAmplitude = 0.6, SecondCFEnv = 1, Epsilon = 0.001,
     NewTotalKlinesMin = 2, NewTotalKlinesMax = 4, SecondTotalKlinesMin = 1, ADXThreshold = 25\<rparr>"

text \<open>The same with a negative minimum for the SecondCF window.\<close>

definition cfgNegative :: StrategyConfig where
  "cfgNegative = \<lparr>TotalKlines = 4, CustomAmplitude = 0.6, SecondCFEnv = 1, Epsilon = 0.001,
     NewTotalKlinesMin = 2, NewTotalKlinesMax = 4, SecondTotalKlinesMin = - 1, ADXThreshold = 25\<rparr>"

text \<open>The three candles of the specification's ATR example.\<close>

definition spec3 :: "Candle list" where
  "spec3 = [mkCandle 1 10 8 9, mkCandle 2 11 9 10, mkCandle 3 9 7 8]"

text \<open>
  Candles for the simulator; the candle at index \<open>i\<close> has the timestamp \<open>100 * i\<close>.
  The first candles close at 100 within the range 99 to 101.
\<close>

definition bars2 :: "Candle list" where
  "bars2 = [mkCandle 0 101 99 100, mkCandle 100 101 99 100]"

text \<open>A fourth candle like the others.\<close>

definition barsCalm :: "Candle list" where
  "barsCalm = [mkCandle 0 101 99 100, mkCandle 100 101 99 100, mkCandle 200 101 99 100,
               mkCandle 300 101 99 100]"

text \<open>A fourth candle that falls: high 97, low and close 95.\<close>

definition barsFall :: "Candle list" where
  "barsFall = [mkCandle 0 101 99 100, mkCandle 100 101 99 100, mkCandle 200 101 99 100,
               mkCandle 300 97 95 95]"

text \<open>A fourth candle that rises: high 103, low 101, close 102.\<close>

definition barsRise :: "Candle list" where
  "barsRise = [mkCandle 0 101 99 100, mkCandle 100 101 99 100, mkCandle 200 101 99 100,
               mkCandle 300 103 101 102]"

text \<open>The LONG position that the simulator opens at index 2 of \<open>barsFall\<close> with ATR 2.\<close>

definition longAt2 :: Position where
  "longAt2 = \<lparr>PSide = ''LONG'', PEntryPrice = 100, PEntryTime = 200, PSize = 10,
               StopLoss = 96, TakeProfit = 106\<rparr>"

lemmas example_defs =
  spec3_def bars2_def barsCalm_def barsFall_def barsRise_def longAt2_def
  mkCandle_def quiet5_def zeroLow5_def rising5_def cfgGrow_def cfgAbove_def cfgInverted_def
  cfgWithin_def cfgNegative_def

lemmas sim_defs =
  simulate_def tradingLoop.simps tradingStep_def checkEntrySignal_def cmp_def andalso_def
  index_at_def bnd_def openPosition_def checkExitSignal_def closePosition_def bookClose_def
  initialBalance_def Let_def upt_conv_Cons

lemmas indicator_defs =
  ATR_Calculate_def ADX_Calculate_def plusDI_at_def minusDI_at_def dx_at_def smoothedPlusDM_def
  smoothedMinusDM_def smoothedTR_def plusDM_def minusDM_def trueRange_def smoothing_def
  CalculateATRPercent_def

lemmas pass_defs =
  calculateCFIndicators_def CalculateSecondCF_def calculateSecondTotalKlines_def

lemmas cf_defs =
  CalculateMainCF_def calculateNewTotalKlines_def calculateCF_def bnd_def reslice_def
  slice_of_def float_to_int_def clamp_def Let_def

section \<open>The adaptive window of MainCF\<close>

lemma clamp_bounds: "lo \<le> hi \<Longrightarrow> lo \<le> clamp v lo hi \<and> clamp v lo hi \<le> hi"
  by (simp add: clamp_def)

lemma calculateNewTotalKlines_cases:
  assumes "calculateNewTotalKlines cfg candles t = Inr n"
  shows "\<exists>w. reslice candles (t - TotalKlines cfg + 1) (t + 1) = Inr w \<and>
           (if findMinLow (elems w) = 0 then n = TotalKlines cfg
            else \<exists>v. n = clamp v (NewTotalKlinesMin cfg) (NewTotalKlinesMax cfg))"
  using assms
  by (auto simp: calculateNewTotalKlines_def bnd_def Let_def split: sum.splits if_splits)

text \<open>
  Claim C1, as stated, fails: the window size returned by \<open>CalculateMainCF\<close> is the base
  size \<open>TotalKlines\<close>, not clamped, when \<open>t < TotalKlines\<close> (first conjunct) and when
  the lowest low of the base window is 0 (second conjunct); with the bounds the wrong way
  round the clamped value is outside them too (third conjunct).
\<close>

theorem newTotalKlines_outside_bounds:
  "(CalculateMainCF cfgAbove (slice_of quiet5) 3 0 = Inr (0, 4) \<and>
    \<not> (NewTotalKlinesMin cfgAbove \<le> 4 \<and> 4 \<le> NewTotalKlinesMax cfgAbove)) \<and>
   (CalculateMainCF cfgAbove (slice_of zeroLow5) 4 0 = Inr (0, 4) \<and>
    \<not> (NewTotalKlinesMin cfgAbove \<le> 4 \<and> 4 \<le> NewTotalKlinesMax cfgAbove)) \<and>
   (CalculateMainCF cfgInverted (slice_of quiet5) 4 0 = Inr (0, 3) \<and>
    \<not> (NewTotalKlinesMin cfgInverted \<le> 3 \<and> 3 \<le> NewTotalKlinesMax cfgInverted))"
  by (simp add: cf_defs example_defs)

text \<open>
  Claim C1, amended: whenever \<open>CalculateMainCF\<close> returns a window size \<open>n\<close>, then
  \<open>n\<close> is the base size \<open>TotalKlines\<close> if \<open>t < TotalKlines\<close> or if the lowest low
  of the base window is 0, and otherwise \<open>n\<close> lies within
  \<open>[NewTotalKlinesMin, NewTotalKlinesMax]\<close>, provided
  \<open>NewTotalKlinesMin \<le> NewTotalKlinesMax\<close>, whatever the volatility is.
\<close>

theorem newTotalKlines_bounds:
  "CalculateMainCF cfg candles t prevCF = Inr (cf, n) \<Longrightarrow>
     (t < TotalKlines cfg \<longrightarrow> n = TotalKlines cfg) \<and>
     (\<forall>w. TotalKlines cfg \<le> t \<and> reslice candles (t - TotalKlines cfg + 1) (t + 1) = Inr w \<longrightarrow>
        (findMinLow (elems w) = 0 \<longrightarrow> n = TotalKlines cfg) \<and>
        (findMinLow (elems w) \<noteq> 0 \<and> NewTotalKlinesMin cfg \<le> NewTotalKlinesMax cfg \<longrightarrow>
           NewTotalKlinesMin cfg \<le> n \<and> n \<le> NewTotalKlinesMax cfg))"
proof (cases "t < TotalKlines cfg")
  case True
  assume "CalculateMainCF cfg candles t prevCF = Inr (cf, n)"
  with True show ?thesis by (simp add: CalculateMainCF_def)
next
  case False
  assume ret: "CalculateMainCF cfg candles t prevCF = Inr (cf, n)"
  with False have "calculateNewTotalKlines cfg candles t = Inr n"
    by (auto simp: CalculateMainCF_def bnd_def split: sum.splits)
  from calculateNewTotalKlines_cases[OF this]
  obtain w0 where w0: "reslice candles (t - TotalKlines cfg + 1) (t + 1) = Inr w0"
    and n: "if findMinLow (elems w0) = 0 then n = TotalKlines cfg
            else \<exists>v. n = clamp v (NewTotalKlinesMin cfg) (NewTotalKlinesMax cfg)"
    by blast
  show ?thesis
  proof (intro conjI impI allI)
    assume "t < TotalKlines cfg"
    with False show "n = TotalKlines cfg" by simp
  next
    fix w
    assume "TotalKlines cfg \<le> t \<and> reslice candles (t - TotalKlines cfg + 1) (t + 1) = Inr w"
      and "findMinLow (elems w) = 0"
    with w0 n show "n = TotalKlines cfg" by simp
  next
    fix w
    assume a: "TotalKlines cfg \<le> t \<and> reslice candles (t - TotalKlines cfg + 1) (t + 1) = Inr w"
      and b: "findMinLow (elems w) \<noteq> 0 \<and> NewTotalKlinesMin cfg \<le> NewTotalKlinesMax cfg"
    from a w0 have "w = w0" by simp
    with n b obtain v where "n = clamp v (NewTotalKlinesMin cfg) (NewTotalKlinesMax cfg)" by auto
    with b clamp_bounds[of "NewTotalKlinesMin cfg" "NewTotalKlinesMax cfg" v]
    show "NewTotalKlinesMin cfg \<le> n" and "n \<le> NewTotalKlinesMax cfg" by simp_all
  qed
qed

theorem newTotalKlines_bounds_witness:
  "(CalculateMainCF cfgWithin (slice_of rising5) 4 0 = Inr (175 / 9, 4) \<and>
    TotalKlines cfgWithin \<le> 4 \<and> findMinLow (drop 1 rising5) \<noteq> 0 \<and>
    NewTotalKlinesMin cfgWithin \<le> NewTotalKlinesMax cfgWithin \<and>
    NewTotalKlinesMin cfgWithin \<le> 4 \<and> 4 \<le> NewTotalKlinesMax cfgWithin) \<and>
   (CalculateMainCF cfgAbove (slice_of quiet5) 3 0 = Inr (0, 4) \<and>
    3 < TotalKlines cfgAbove \<and> 4 = TotalKlines cfgAbove) \<and>
   (CalculateMainCF cfgAbove (slice_of zeroLow5) 4 0 = Inr (0, 4) \<and>
    TotalKlines cfgAbove \<le> 4 \<and> findMinLow (drop 1 zeroLow5) = 0 \<and> 4 = TotalKlines cfgAbove)"
proof -
  have r: "CalculateMainCF cfgWithin (slice_of rising5) 4 0 = Inr (175 / 9, 4)"
    by (simp add: cf_defs example_defs)
  have w: "reslice (slice_of rising5) (4 - TotalKlines cfgWithin + 1) (4 + 1)
             = Inr \<lparr>elems = drop 1 rising5, spare = []\<rparr>"
    by (simp add: cf_defs example_defs)
  have l: "findMinLow (drop 1 rising5) \<noteq> 0"
    by (simp add: example_defs)
  have b: "NewTotalKlinesMin cfgWithin \<le> NewTotalKlinesMax cfgWithin"
    by (simp add: example_defs)
  have t: "TotalKlines cfgWithin \<le> 4"
    by (simp add: example_defs)
  from newTotalKlines_bounds[OF r] w l b t
  have inside: "NewTotalKlinesMin cfgWithin \<le> 4 \<and> 4 \<le> NewTotalKlinesMax cfgWithin"
    by simp
  have r': "CalculateMainCF cfgAbove (slice_of quiet5) 3 0 = Inr (0, 4)"
    by (simp add: cf_defs example_defs)
  have t': "3 < TotalKlines cfgAbove"
    by (simp add: example_defs)
  from newTotalKlines_bounds[OF r'] t' have early: "4 = TotalKlines cfgAbove"
    by simp
  have r'': "CalculateMainCF cfgAbove (slice_of zeroLow5) 4 0 = Inr (0, 4)"
    by (simp add: cf_defs example_defs)
  have w'': "reslice (slice_of zeroLow5) (4 - TotalKlines cfgAbove + 1) (4 + 1)
             = Inr \<lparr>elems = drop 1 zeroLow5, spare = []\<rparr>"
    by (simp add: cf_defs example_defs)
  have l'': "findMinLow (drop 1 zeroLow5) = 0"
    by (simp add: example_defs)
  have t'': "TotalKlines cfgAbove \<le> 4"
    by (simp add: example_defs)
  from newTotalKlines_bounds[OF r''] w'' l'' t'' have "4 = TotalKlines cfgAbove"
    by simp
  with r l b t inside r' t' early r'' l'' t'' show ?thesis
    by blast
qed

text \<open>
  The call returns when the bounds keep the adaptive window between 0 and the number of
  candles up to \<open>t\<close>.
\<close>

lemma CalculateMainCF_returns:
  assumes "0 \<le> TotalKlines cfg" and "TotalKlines cfg \<le> t"
    and "t < int (length (elems candles))"
    and "0 \<le> NewTotalKlinesMin cfg" and "NewTotalKlinesMin cfg \<le> NewTotalKlinesMax cfg"
    and "NewTotalKlinesMax cfg \<le> t + 1"
  shows "\<exists>cf n. CalculateMainCF cfg candles t prevCF = Inr (cf, n)"
proof -
  from assms(1-3) obtain w where
    w: "reslice candles (t - TotalKlines cfg + 1) (t + 1) = Inr w"
    by (simp add: reslice_def Let_def)
  then have "\<exists>n. calculateNewTotalKlines cfg candles t = Inr n"
    by (cases "findMinLow (elems w) = 0") (simp_all add: calculateNewTotalKlines_def bnd_def Let_def)
  then obtain n where n: "calculateNewTotalKlines cfg candles t = Inr n" ..
  from calculateNewTotalKlines_cases[OF n] w
  have "n = TotalKlines cfg \<or> (\<exists>v. n = clamp v (NewTotalKlinesMin cfg) (NewTotalKlinesMax cfg))"
    by (auto split: if_splits)
  then have "0 \<le> n \<and> n \<le> t + 1"
  proof
    assume "n = TotalKlines cfg"
    with assms(1,2) show ?thesis by simp
  next
    assume "\<exists>v. n = clamp v (NewTotalKlinesMin cfg) (NewTotalKlinesMax cfg)"
    then obtain v where "n = clamp v (NewTotalKlinesMin cfg) (NewTotalKlinesMax cfg)" ..
    with clamp_bounds[OF assms(5), of v] assms(4,6) show ?thesis by simp
  qed
  with assms(3) obtain w' where "reslice candles (t - n + 1) (t + 1) = Inr w'"
    by (simp add: reslice_def Let_def)
  with n assms(2) show ?thesis
    by (simp add: CalculateMainCF_def bnd_def)
qed

text \<open>
  Claim C2 (the code fails where the claim says it cannot): base window 4, adaptive
  window allowed up to 8, five quiet candles, \<open>t = 4\<close>. Then
  \<open>TotalKlines \<le> t < len(candles)\<close>, the adaptive window grows to 8, and the window
  expression \<^verbatim>\<open>candles[t-newTotalKlines+1 : t+1]\<close> has the lower bound \<open>-3\<close>: the call
  panics, and with it the indicator pass of the engine over these candles.
\<close>

theorem CalculateMainCF_panics:
  "TotalKlines cfgGrow \<le> 4 \<and> 4 < int (length (elems (slice_of quiet5))) \<and>
   calculateNewTotalKlines cfgGrow (slice_of quiet5) 4 = Inr 8 \<and>
   reslice (slice_of quiet5) (4 - 8 + 1) (4 + 1) = Inl SliceBoundsOutOfRange \<and>
   CalculateMainCF cfgGrow (slice_of quiet5) 4 0 = Inl SliceBoundsOutOfRange \<and>
   calculateCFIndicators cfgGrow 0 (slice_of quiet5) = Inl SliceBoundsOutOfRange"
  by (simp add: pass_defs upt_conv_Cons cf_defs example_defs)

section \<open>SecondCF in the indicator pass\<close>









section \<open>ATR\<close>

text \<open>
  Claim C7, as stated, fails for a series of exactly one candle: the series returned is
  \<open>[0]\<close>, while the candle's range is 2.
\<close>

theorem ATR_single_candle_zero:
  "ATR_Calculate 14 [mkCandle 1 10 8 9] ! 0 = 0 \<and>
   High (mkCandle 1 10 8 9) - Low (mkCandle 1 10 8 9) = 2"
  by (simp add: ATR_Calculate_def mkCandle_def)

text \<open>
  Claim C7, amended: for every series of at least two candles the first entry of the ATR
  series is \<open>high[0] - low[0]\<close>; a series of fewer than two candles yields zeros.
\<close>

theorem ATR_first_entry:
  "(2 \<le> length candles \<longrightarrow>
      ATR_Calculate period candles ! 0 = High (candles ! 0) - Low (candles ! 0)) \<and>
   (length candles < 2 \<longrightarrow> ATR_Calculate period candles = replicate (length candles) 0)"
proof (intro conjI impI)
  assume two: "2 \<le> length candles"
  then have pos: "0 < length candles" by arith
  from two have "ATR_Calculate period candles
                   = map (ema (smoothing period) (trueRange candles)) [0..<length candles]"
    by (simp add: ATR_Calculate_def)
  with pos show "ATR_Calculate period candles ! 0 = High (candles ! 0) - Low (candles ! 0)"
    by (simp add: trueRange_def)
next
  assume "length candles < 2"
  then show "ATR_Calculate period candles = replicate (length candles) 0"
    by (simp add: ATR_Calculate_def)
qed

theorem ATR_first_entry_witness:
  "2 \<le> length spec3 \<and> ATR_Calculate 2 spec3 ! 0 = 2 \<and>
   High (spec3 ! 0) - Low (spec3 ! 0) = 2 \<and>
   length [mkCandle 1 10 8 9] < 2 \<and> ATR_Calculate 2 [mkCandle 1 10 8 9] = [0]"
proof -
  have a: "2 \<le> length spec3" by (simp add: spec3_def)
  have b: "High (spec3 ! 0) - Low (spec3 ! 0) = 2" by (simp add: spec3_def mkCandle_def)
  have c: "length [mkCandle 1 10 8 9] < 2" by simp
  from ATR_first_entry[of spec3 2] a b have "ATR_Calculate 2 spec3 ! 0 = 2" by simp
  moreover from ATR_first_entry[of "[mkCandle 1 10 8 9]" 2] c
  have "ATR_Calculate 2 [mkCandle 1 10 8 9] = [0]" by simp
  ultimately show ?thesis using a b c by blast
qed

section \<open>Metrics\<close>

text \<open>
  Claim C8: on an empty trade ledger \<open>calculateMetrics\<close> leaves the fresh result as it
  is: all counts, the win rate, the total P\&L and the total return are 0, and the metrics
  map has no \<open>profit_factor\<close>, \<open>avg_win\<close> or \<open>avg_loss\<close> key.
\<close>

theorem metrics_of_empty_ledger:
  "calculateMetrics newResult [] initBalance finalBalance = newResult \<and>
   TotalTrades (calculateMetrics newResult [] initBalance finalBalance) = 0 \<and>
   WinningTrades (calculateMetrics newResult [] initBalance finalBalance) = 0 \<and>
   LosingTrades (calculateMetrics newResult [] initBalance finalBalance) = 0 \<and>
   WinRate (calculateMetrics newResult [] initBalance finalBalance) = 0 \<and>
   TotalPnL (calculateMetrics newResult [] initBalance finalBalance) = 0 \<and>
   TotalReturn (calculateMetrics newResult [] initBalance finalBalance) = 0 \<and>
   Metrics (calculateMetrics newResult [] initBalance finalBalance) ''profit_factor'' = None \<and>
   Metrics (calculateMetrics newResult [] initBalance finalBalance) ''avg_win'' = None \<and>
   Metrics (calculateMetrics newResult [] initBalance finalBalance) ''avg_loss'' = None"
  by (simp add: calculateMetrics_def newResult_def)

section \<open>Exit prices\<close>

text \<open>
  Claim C5: when the bar's range crosses the stop-loss or the take-profit of the open
  position, the loop closes the position and the trade it appends has the triggered
  level as its exit price: for a LONG position the stop-loss if \<open>low \<le> stopLoss\<close> and
  otherwise the take-profit, for a SHORT position the stop-loss if \<open>high \<ge> stopLoss\<close>
  and otherwise the take-profit.
\<close>

theorem exit_price_is_triggered_level:
  assumes "currentPosition st = Some position"
    and "index_at candles (int i) = Inr candle"
    and "index_at atr (int i) = Inr a"
    and "checkExitSignal (int i) position candle a"
  shows "tradingStep candles mainCF secondCF atr atrPercent adx plusDI minusDI cfg i st
           = Inr ((bookClose st position candle)\<lparr>currentPosition := None\<rparr>) \<and>
         trades (bookClose st position candle)
           = trades st @ [last (trades (bookClose st position candle))] \<and>
         ExitPrice (last (trades (bookClose st position candle))) =
           (if PSide position = ''LONG''
            then (if Low candle \<le> StopLoss position then StopLoss position
                  else TakeProfit position)
            else (if High candle \<ge> StopLoss position then StopLoss position
                  else TakeProfit position))"
proof (intro conjI)
  from assms show "tradingStep candles mainCF secondCF atr atrPercent adx plusDI minusDI cfg i st
           = Inr ((bookClose st position candle)\<lparr>currentPosition := None\<rparr>)"
    by (simp add: tradingStep_def bnd_def)
next
  show "trades (bookClose st position candle)
           = trades st @ [last (trades (bookClose st position candle))]"
    by (simp add: bookClose_def Let_def)
next
  from assms(4) show "ExitPrice (last (trades (bookClose st position candle))) =
           (if PSide position = ''LONG''
            then (if Low candle \<le> StopLoss position then StopLoss position
                  else TakeProfit position)
            else (if High candle \<ge> StopLoss position then StopLoss position
                  else TakeProfit position))"
    by (auto simp: bookClose_def checkExitSignal_def closePosition_def Let_def split: if_splits)
qed

theorem exit_price_is_triggered_level_witness:
  "currentPosition \<lparr>currentPosition = Some longAt2, currentBalance = 9000, trades = []\<rparr>
     = Some longAt2 \<and>
   index_at barsFall (int 3) = Inr (mkCandle 300 97 95 95) \<and>
   index_at [2, 2, 2, 2] (int 3) = Inr (2::real) \<and>
   checkExitSignal (int 3) longAt2 (mkCandle 300 97 95 95) 2 \<and>
   tradingStep barsFall [0, 0, 1, 1] [0, 0, 0, 0] [2, 2, 2, 2] [0, 0, 0, 0] [0, 0, 30, 30]
       [0, 0, 20, 20] [0, 0, 10, 10] cfgWithin 3
       \<lparr>currentPosition = Some longAt2, currentBalance = 9000, trades = []\<rparr>
     = Inr \<lparr>currentPosition = None, currentBalance = 9960,
           trades = [\<lparr>Side = ''LONG'', EntryPrice = 100, EntryTime = 200, ExitPrice = 96,
                      ExitTime = 300, Size = 10, PnL = - 40\<rparr>]\<rparr> \<and>
   ExitPrice (last (trades (bookClose
       \<lparr>currentPosition = Some longAt2, currentBalance = 9000, trades = []\<rparr>
       longAt2 (mkCandle 300 97 95 95)))) = StopLoss longAt2 \<and>
   StopLoss longAt2 = 96 \<and> Close (mkCandle 300 97 95 95) = 95"
proof -
  have p: "currentPosition \<lparr>currentPosition = Some longAt2, currentBalance = 9000, trades = []\<rparr>
             = Some longAt2"
    by simp
  have c: "index_at barsFall (int 3) = Inr (mkCandle 300 97 95 95)"
    by (simp add: index_at_def barsFall_def)
  have a: "index_at [2, 2, 2, 2] (int 3) = Inr (2::real)"
    by (simp add: index_at_def)
  have x: "checkExitSignal (int 3) longAt2 (mkCandle 300 97 95 95) 2"
    by (simp add: checkExitSignal_def longAt2_def mkCandle_def)
  have b: "(bookClose \<lparr>currentPosition = Some longAt2, currentBalance = 9000, trades = []\<rparr>
              longAt2 (mkCandle 300 97 95 95))\<lparr>currentPosition := None\<rparr>
            = \<lparr>currentPosition = None, currentBalance = 9960,
               trades = [\<lparr>Side = ''LONG'', EntryPrice = 100, EntryTime = 200, ExitPrice = 96,
                          ExitTime = 300, Size = 10, PnL = - 40\<rparr>]\<rparr>"
    by (simp add: bookClose_def closePosition_def longAt2_def mkCandle_def Let_def)
  have l: "Low (mkCandle 300 97 95 95) \<le> StopLoss longAt2 \<and> PSide longAt2 = ''LONG'' \<and>
           StopLoss longAt2 = 96 \<and> Close (mkCandle 300 97 95 95) = 95"
    by (simp add: longAt2_def mkCandle_def)
  from exit_price_is_triggered_level[OF p c a x, of "[0, 0, 1, 1]" "[0, 0, 0, 0]" "[0, 0, 0, 0]"
      "[0, 0, 30, 30]" "[0, 0, 20, 20]" "[0, 0, 10, 10]" cfgWithin] b l p c a x
  show ?thesis by simp
qed

section \<open>Entries\<close>

lemma index_at_nth: "i < length xs \<Longrightarrow> index_at xs (int i) = Inr (xs ! i)"
  by (simp add: index_at_def)

lemma index_at_pred:
  "0 < i \<Longrightarrow> i < length xs \<Longrightarrow> index_at xs (int i - 1) = Inr (xs ! (i - 1))"
  by (simp add: index_at_def nat_diff_distrib')

text \<open>
  Claim C3, as stated, fails in two ways. An upward crossing at index 1 with ADX above
  the threshold and +DI above -DI opens nothing, since \<open>checkEntrySignal\<close> returns no
  signal below index 2 (first conjunct: the run ends flat with no trade). An upward
  crossing at index 3 with ADX above the threshold and +DI above -DI opens nothing while
  the SHORT position opened at index 2 is still open (second conjunct: the only trade of
  the run is that SHORT position, closed at the end of the range).
\<close>

theorem crossing_without_long_entry:
  "([0, 1] ! 0 \<le> (0::real) \<and> [0, 1] ! 1 > (0::real) \<and>
    [0, 30] ! 1 > ADXThreshold cfgWithin \<and> [0, 20] ! 1 > ([0, 10] ! 1 :: real) \<and>
    simulate bars2 [0, 1] [0, 0] [2, 2] [0, 0] [0, 30] [0, 20] [0, 10] cfgWithin
      = Inr \<lparr>currentPosition = None, currentBalance = 10000, trades = []\<rparr>) \<and>
   ([0, 0, - 1, 1] ! 2 \<le> (0::real) \<and> [0, 0, - 1, 1] ! 3 > (0::real) \<and>
    [0, 0, 30, 30] ! 3 > ADXThreshold cfgWithin \<and>
    [0, 0, 10, 20] ! 3 > ([0, 0, 20, 10] ! 3 :: real) \<and>
    simulate barsCalm [0, 0, - 1, 1] [0, 0, 0, 0] [1, 1, 1, 1] [0, 0, 0, 0] [0, 0, 30, 30]
        [0, 0, 10, 20] [0, 0, 20, 10] cfgWithin
      = Inr \<lparr>currentPosition =
               Some \<lparr>PSide = ''SHORT'', PEntryPrice = 100, PEntryTime = 200, PSize = 10,
                     StopLoss = 102, TakeProfit = 97\<rparr>,
             currentBalance = 10000,
             trades = [\<lparr>Side = ''SHORT'', EntryPrice = 100, EntryTime = 200, ExitPrice = 100,
                        ExitTime = 300, Size = 10, PnL = 0\<rparr>]\<rparr>)"
  by (simp add: sim_defs example_defs)

text \<open>
  Claim C3, amended: whenever the simulator is flat when it reaches index \<open>i\<close>,
  \<open>i \<ge> 2\<close>, MainCF crosses zero upward at \<open>i\<close> (\<open>MainCF[i-1] \<le> 0\<close> and
  \<open>MainCF[i] > 0\<close>), \<open>ADX[i]\<close> exceeds the threshold and \<open>+DI[i] > -DI[i]\<close>, the
  step at index \<open>i\<close> opens a LONG position whose entry price is the close of candle
  \<open>i\<close> and whose entry time is the timestamp of candle \<open>i\<close>.
\<close>

theorem long_entry_at_crossing:
  assumes "currentPosition st = None"
    and "2 \<le> i"
    and "i < length candles" and "i < length atr" and "i < length mainCF"
    and "i < length adx" and "i < length plusDI" and "i < length minusDI"
    and "mainCF ! (i - 1) \<le> 0" and "mainCF ! i > 0"
    and "adx ! i > ADXThreshold cfg" and "plusDI ! i > minusDI ! i"
  shows "tradingStep candles mainCF secondCF atr atrPercent adx plusDI minusDI cfg i st
           = Inr (st\<lparr>currentPosition :=
                        Some (openPosition ''LONG'' (candles ! i) (atr ! i) (currentBalance st)),
                      currentBalance := currentBalance st
                        - PSize (openPosition ''LONG'' (candles ! i) (atr ! i) (currentBalance st))
                          * Close (candles ! i)\<rparr>) \<and>
         PSide (openPosition ''LONG'' (candles ! i) (atr ! i) (currentBalance st)) = ''LONG'' \<and>
         PEntryPrice (openPosition ''LONG'' (candles ! i) (atr ! i) (currentBalance st))
           = Close (candles ! i) \<and>
         PEntryTime (openPosition ''LONG'' (candles ! i) (atr ! i) (currentBalance st))
           = Timestamp (candles ! i)"
proof -
  from assms(2) have pos: "0 < i" by simp
  from assms(2,5-12) pos
  have sig: "checkEntrySignal (int i) mainCF secondCF adx plusDI minusDI atrPercent cfg
               = Inr ''LONG''"
    by (simp add: checkEntrySignal_def cmp_def andalso_def bnd_def index_at_nth index_at_pred)
  from assms(1,3,4) sig show ?thesis
    by (simp add: tradingStep_def bnd_def index_at_nth Let_def openPosition_def)
qed

theorem long_entry_at_crossing_witness:
  "currentPosition \<lparr>currentPosition = None, currentBalance = 10000, trades = []\<rparr> = None \<and>
   (2::nat) \<le> 2 \<and> 2 < length barsFall \<and>
   [0, 0, 1, 1] ! (2 - 1) \<le> (0::real) \<and> [0, 0, 1, 1] ! 2 > (0::real) \<and>
   [0, 0, 30, 30] ! 2 > ADXThreshold cfgWithin \<and>
   [0, 0, 20, 20] ! 2 > ([0, 0, 10, 10] ! 2 :: real) \<and>
   tradingStep barsFall [0, 0, 1, 1] [0, 0, 0, 0] [2, 2, 2, 2] [0, 0, 0, 0] [0, 0, 30, 30]
       [0, 0, 20, 20] [0, 0, 10, 10] cfgWithin 2
       \<lparr>currentPosition = None, currentBalance = 10000, trades = []\<rparr>
     = Inr \<lparr>currentPosition = Some longAt2, currentBalance = 9000, trades = []\<rparr> \<and>
   PEntryPrice longAt2 = Close (barsFall ! 2) \<and> PEntryTime longAt2 = Timestamp (barsFall ! 2)"
proof -
  have f: "currentPosition \<lparr>currentPosition = None, currentBalance = 10000, trades = []\<rparr> = None"
    by simp
  have n: "2 < length barsFall"
    by (simp add: barsFall_def)
  have c: "[0, 0, 1, 1] ! (2 - 1) \<le> (0::real)" "[0, 0, 1, 1] ! 2 > (0::real)"
    by simp_all
  have t: "[0, 0, 30, 30] ! 2 > ADXThreshold cfgWithin"
    "[0, 0, 20, 20] ! 2 > ([0, 0, 10, 10] ! 2 :: real)"
    by (simp_all add: cfgWithin_def)
  have o: "openPosition ''LONG'' (barsFall ! 2) ([2, 2, 2, 2] ! 2) 10000 = longAt2"
    by (simp add: openPosition_def barsFall_def mkCandle_def longAt2_def)
  have e: "PEntryPrice longAt2 = Close (barsFall ! 2) \<and>
           PEntryTime longAt2 = Timestamp (barsFall ! 2) \<and>
           10000 - PSize longAt2 * Close (barsFall ! 2) = 9000"
    by (simp add: barsFall_def mkCandle_def longAt2_def)
  from long_entry_at_crossing[where st = "\<lparr>currentPosition = None, currentBalance = 10000, trades = []\<rparr>"
      and i = 2 and candles = barsFall and atr = "[2, 2, 2, 2]" and mainCF = "[0, 0, 1, 1]"
      and adx = "[0, 0, 30, 30]" and plusDI = "[0, 0, 20, 20]" and minusDI = "[0, 0, 10, 10]"
      and cfg = cfgWithin and secondCF = "[0, 0, 0, 0]" and atrPercent = "[0, 0, 0, 0]"]
    f n c t o e
  show ?thesis by simp
qed

section \<open>Entry and exit times\<close>

lemma timestamp_before:
  assumes "sorted_wrt (<) (map Timestamp candles)" "i < length candles"
    and "t \<in> set (map Timestamp (take i candles))"
  shows "t < Timestamp (candles ! i)"
proof -
  from assms(3) obtain j where j: "j < i" "j < length candles" "t = Timestamp (candles ! j)"
    by (auto simp: in_set_conv_nth)
  with assms(1,2) show ?thesis
    by (auto simp: sorted_wrt_iff_nth_less)
qed

lemma enteredBefore_mono:
  "enteredBefore candles k st \<Longrightarrow> k \<le> k' \<Longrightarrow> enteredBefore candles k' st"
  by (auto simp: enteredBefore_def take_map[symmetric]
      dest: set_take_subset_set_take[THEN subsetD] split: option.splits)

lemma tradingStep_times:
  assumes inc: "sorted_wrt (<) (map Timestamp candles)"
    and step: "tradingStep candles mainCF secondCF atr atrPercent adx plusDI minusDI cfg i st
                 = Inr st'"
    and pos: "enteredBefore candles i st"
    and tr: "list_all exitsAfterEntry (trades st)"
  shows "enteredBefore candles (Suc i) st' \<and> list_all exitsAfterEntry (trades st')"
proof -
  from step obtain candle where c: "index_at candles (int i) = Inr candle"
    by (auto simp: tradingStep_def bnd_def split: sum.splits)
  then have i: "i < length candles" and candle: "candle = candles ! i"
    by (auto simp: index_at_def split: if_splits)
  show ?thesis
  proof (cases "currentPosition st")
    case None
    with step c tr i candle show ?thesis
      by (auto simp: tradingStep_def bnd_def Let_def enteredBefore_def openPosition_def
          take_Suc_conv_app_nth split: sum.splits if_splits)
  next
    case (Some p)
    with pos have "PEntryTime p \<in> set (map Timestamp (take i candles))"
      by (simp add: enteredBefore_def)
    from timestamp_before[OF inc i this] have lt: "PEntryTime p < Timestamp candle"
      by (simp add: candle)
    from pos have pos': "enteredBefore candles (Suc i) st"
      by (rule enteredBefore_mono) simp
    from step c Some tr lt pos' show ?thesis
      by (auto simp: tradingStep_def bnd_def enteredBefore_def bookClose_def closePosition_def
          exitsAfterEntry_def Let_def split: sum.splits if_splits)
  qed
qed

lemma tradingLoop_times:
  assumes inc: "sorted_wrt (<) (map Timestamp candles)"
  shows "tradingLoop candles mainCF secondCF atr atrPercent adx plusDI minusDI cfg [a..<b] st
           = Inr st'
     \<Longrightarrow> enteredBefore candles a st \<Longrightarrow> list_all exitsAfterEntry (trades st)
     \<Longrightarrow> enteredBefore candles (max a b) st' \<and> list_all exitsAfterEntry (trades st')"
proof (induction "b - a" arbitrary: a st)
  case 0
  then show ?case by (simp add: max_def)
next
  case (Suc n)
  then have ab: "a < b" and n: "n = b - Suc a" by simp_all
  from ab have upt: "[a..<b] = a # [Suc a..<b]" by (simp add: upt_conv_Cons)
  from Suc.prems(1) upt obtain mid where
    s: "tradingStep candles mainCF secondCF atr atrPercent adx plusDI minusDI cfg a st = Inr mid"
    and r: "tradingLoop candles mainCF secondCF atr atrPercent adx plusDI minusDI cfg
              [Suc a..<b] mid = Inr st'"
    by (auto simp: bnd_def split: sum.splits)
  from tradingStep_times[OF inc s Suc.prems(2,3)]
  have "enteredBefore candles (Suc a) mid" and "list_all exitsAfterEntry (trades mid)" by simp_all
  from Suc.hyps(1)[OF n r this] ab show ?case by (simp add: max_def)
qed

text \<open>
  With strictly increasing timestamps, every trade that the loop itself closes exits
  after its entry: the loop tests for an exit only on candles after the entry candle.
\<close>

lemma loop_trades_exit_after_entry:
  assumes "sorted_wrt (<) (map Timestamp candles)"
    and "tradingLoop candles mainCF secondCF atr atrPercent adx plusDI minusDI cfg
           [1..<length candles]
           \<lparr>currentPosition = None, currentBalance = initialBalance, trades = []\<rparr> = Inr st"
  shows "list_all exitsAfterEntry (trades st)"
  using tradingLoop_times[OF assms(1) assms(2)] by (simp add: enteredBefore_def)

text \<open>
  Claim C4 (the code emits a trade that the claim excludes): the five rising candles,
  with the strictly increasing timestamps 1 to 5, run through the engine's steps. The
  indicator pass gives a MainCF series that crosses zero upward at the last index 4, where
  ADX is above the threshold 25 and +DI above -DI. The simulator opens a LONG position on
  the last candle and, after the loop, closes it against that same candle: the trade's
  exit time equals its entry time.
\<close>

theorem trade_closed_on_its_entry_candle:
  "sorted_wrt (<) (map Timestamp rising5) \<and>
   calculateCFIndicators cfgWithin 0 (slice_of rising5)
     = Inr ([0, 0, 0, 0, 175 / 9], [0, 0, 0, 0, 0]) \<and>
   ATR_Calculate 14 rising5 = [2, 2, 2, 2, 2] \<and>
   CalculateATRPercent rising5 [2, 2, 2, 2, 2] = [200 / 9, 20, 200 / 11, 50 / 3, 200 / 13] \<and>
   ADX_Calculate 14 rising5
     = ([0, 40 / 3, 224 / 9, 4712 / 135, 88256 / 2025],
        [0, 20 / 3, 112 / 9, 2356 / 135, 44128 / 2025], [0, 0, 0, 0, 0]) \<and>
   simulate rising5 [0, 0, 0, 0, 175 / 9] [0, 0, 0, 0, 0] [2, 2, 2, 2, 2]
       [200 / 9, 20, 200 / 11, 50 / 3, 200 / 13]
       [0, 40 / 3, 224 / 9, 4712 / 135, 88256 / 2025]
       [0, 20 / 3, 112 / 9, 2356 / 135, 44128 / 2025] [0, 0, 0, 0, 0] cfgWithin
     = Inr \<lparr>currentPosition =
              Some \<lparr>PSide = ''LONG'', PEntryPrice = 13, PEntryTime = 5, PSize = 1000 / 13,
                    StopLoss = 9, TakeProfit = 19\<rparr>,
            currentBalance = 10000,
            trades = [\<lparr>Side = ''LONG'', EntryPrice = 13, EntryTime = 5, ExitPrice = 13,
                       ExitTime = 5, Size = 1000 / 13, PnL = 0\<rparr>]\<rparr>"
proof (intro conjI)
  show "sorted_wrt (<) (map Timestamp rising5)"
    by (simp add: rising5_def mkCandle_def)
  show "calculateCFIndicators cfgWithin 0 (slice_of rising5)
     = Inr ([0, 0, 0, 0, 175 / 9], [0, 0, 0, 0, 0])"
    by (simp add: pass_defs upt_conv_Cons cf_defs example_defs)
  show "ATR_Calculate 14 rising5 = [2, 2, 2, 2, 2]"
    by (simp add: indicator_defs upt_conv_Cons Let_def rising5_def mkCandle_def)
  show "CalculateATRPercent rising5 [2, 2, 2, 2, 2] = [200 / 9, 20, 200 / 11, 50 / 3, 200 / 13]"
    by (simp add: indicator_defs upt_conv_Cons Let_def rising5_def mkCandle_def)
  show "ADX_Calculate 14 rising5
     = ([0, 40 / 3, 224 / 9, 4712 / 135, 88256 / 2025],
        [0, 20 / 3, 112 / 9, 2356 / 135, 44128 / 2025], [0, 0, 0, 0, 0])"
    by (simp add: indicator_defs upt_conv_Cons Let_def rising5_def mkCandle_def)
  show "simulate rising5 [0, 0, 0, 0, 175 / 9] [0, 0, 0, 0, 0] [2, 2, 2, 2, 2]
       [200 / 9, 20, 200 / 11, 50 / 3, 200 / 13]
       [0, 40 / 3, 224 / 9, 4712 / 135, 88256 / 2025]
       [0, 20 / 3, 112 / 9, 2356 / 135, 44128 / 2025] [0, 0, 0, 0, 0] cfgWithin
     = Inr \<lparr>currentPosition =
              Some \<lparr>PSide = ''LONG'', PEntryPrice = 13, PEntryTime = 5, PSize = 1000 / 13,
                    StopLoss = 9, TakeProfit = 19\<rparr>,
            currentBalance = 10000,
            trades = [\<lparr>Side = ''LONG'', EntryPrice = 13, EntryTime = 5, ExitPrice = 13,
                       ExitTime = 5, Size = 1000 / 13, PnL = 0\<rparr>]\<rparr>"
    by (simp add: sim_defs example_defs)
qed

section \<open>Balance and recorded P\&L\<close>













section \<open>ADX, +DI and -DI\<close>

lemma ema_nonneg:
  assumes "0 \<le> a" "a \<le> 1" "\<forall>j\<le>i. 0 \<le> x j"
  shows "0 \<le> ema a x i"
  using assms(3)
proof (induction i)
  case 0
  then show ?case by simp
next
  case (Suc i)
  then have "0 \<le> ema a x i" and "0 \<le> x (Suc i)" by simp_all
  with assms(1,2) show ?case by simp
qed

lemma ema_mono:
  assumes "0 \<le> a" "a \<le> 1" "\<forall>j\<le>i. x j \<le> y j"
  shows "ema a x i \<le> ema a y i"
  using assms(3)
proof (induction i)
  case 0
  then show ?case by simp
next
  case (Suc i)
  then have "ema a x i \<le> ema a y i" and "x (Suc i) \<le> y (Suc i)" by simp_all
  with assms(1,2) have "a * x (Suc i) \<le> a * y (Suc i)"
    and "(1 - a) * ema a x i \<le> (1 - a) * ema a y i"
    by (simp_all add: mult_left_mono)
  then show ?case by simp
qed

lemma ema_const: "ema a (\<lambda>_. c) i = c"
  by (induction i) (simp_all add: algebra_simps)

lemma ema_le:
  assumes "0 \<le> a" "a \<le> 1" "\<forall>j\<le>i. x j \<le> c"
  shows "ema a x i \<le> c"
  using ema_mono[OF assms(1,2), of i x "\<lambda>_. c"] assms(3) by (simp add: ema_const)

lemma smoothing_range: "1 \<le> period \<Longrightarrow> 0 \<le> smoothing period \<and> smoothing period \<le> 1"
  by (simp add: smoothing_def)

lemma trueRange_nonneg:
  "i < length candles \<Longrightarrow> \<forall>c\<in>set candles. wellFormed c \<Longrightarrow> 0 \<le> trueRange candles i"
  by (auto simp: trueRange_def wellFormed_def Let_def max_def dest!: nth_mem)

lemma plusDM_nonneg: "0 \<le> plusDM candles i"
  by (simp add: plusDM_def Let_def)

lemma minusDM_nonneg: "0 \<le> minusDM candles i"
  by (simp add: minusDM_def Let_def)

text \<open>
  The upward move \<open>high[i] - high[i-1]\<close> is at most \<open>|high[i] - close[i-1]|\<close>, since
  the previous close is at most the previous high.
\<close>

lemma plusDM_le_trueRange:
  assumes "i < length candles" "\<forall>c\<in>set candles. wellFormed c"
  shows "plusDM candles i \<le> trueRange candles i"
proof (cases "i = 0")
  case True
  with assms trueRange_nonneg[OF assms] show ?thesis by (simp add: plusDM_def)
next
  case False
  with assms(1) have "i - 1 < length candles" by simp
  with assms(2) have "Close (candles ! (i - 1)) \<le> High (candles ! (i - 1))"
    by (auto simp: wellFormed_def dest!: nth_mem)
  moreover from assms have "Low (candles ! i) \<le> High (candles ! i)"
    by (auto simp: wellFormed_def dest!: nth_mem)
  ultimately show ?thesis using False
    by (auto simp: plusDM_def trueRange_def Let_def max_def)
qed

lemma minusDM_le_trueRange:
  assumes "i < length candles" "\<forall>c\<in>set candles. wellFormed c"
  shows "minusDM candles i \<le> trueRange candles i"
proof (cases "i = 0")
  case True
  with assms trueRange_nonneg[OF assms] show ?thesis by (simp add: minusDM_def)
next
  case False
  with assms(1) have "i - 1 < length candles" by simp
  with assms(2) have "Low (candles ! (i - 1)) \<le> Close (candles ! (i - 1))"
    by (auto simp: wellFormed_def dest!: nth_mem)
  moreover from assms have "Low (candles ! i) \<le> High (candles ! i)"
    by (auto simp: wellFormed_def dest!: nth_mem)
  ultimately show ?thesis using False
    by (auto simp: minusDM_def trueRange_def Let_def max_def)
qed

lemma ratio_range:
  fixes s t :: real
  assumes "0 \<le> s" "s \<le> t" "t \<noteq> 0"
  shows "0 \<le> s / t * 100 \<and> s / t * 100 \<le> 100"
proof -
  from assms have "0 < t" by simp
  with assms show ?thesis by (simp add: divide_le_eq)
qed

lemma plusDI_range:
  assumes "1 \<le> period" "i < length candles" "\<forall>c\<in>set candles. wellFormed c"
  shows "0 \<le> plusDI_at period candles i \<and> plusDI_at period candles i \<le> 100"
proof -
  note a = smoothing_range[OF assms(1)]
  have "0 \<le> smoothedPlusDM period candles i"
    unfolding smoothedPlusDM_def using a by (intro ema_nonneg) (simp_all add: plusDM_nonneg)
  moreover have "smoothedPlusDM period candles i \<le> smoothedTR period candles i"
    unfolding smoothedPlusDM_def smoothedTR_def using a assms(2,3)
    by (intro ema_mono) (simp_all add: plusDM_le_trueRange)
  ultimately show ?thesis
    using ratio_range[of "smoothedPlusDM period candles i" "smoothedTR period candles i"]
    by (simp add: plusDI_at_def)
qed

lemma minusDI_range:
  assumes "1 \<le> period" "i < length candles" "\<forall>c\<in>set candles. wellFormed c"
  shows "0 \<le> minusDI_at period candles i \<and> minusDI_at period candles i \<le> 100"
proof -
  note a = smoothing_range[OF assms(1)]
  have "0 \<le> smoothedMinusDM period candles i"
    unfolding smoothedMinusDM_def using a by (intro ema_nonneg) (simp_all add: minusDM_nonneg)
  moreover have "smoothedMinusDM period candles i \<le> smoothedTR period candles i"
    unfolding smoothedMinusDM_def smoothedTR_def using a assms(2,3)
    by (intro ema_mono) (simp_all add: minusDM_le_trueRange)
  ultimately show ?thesis
    using ratio_range[of "smoothedMinusDM period candles i" "smoothedTR period candles i"]
    by (simp add: minusDI_at_def)
qed

lemma dx_range:
  assumes "1 \<le> period" "i < length candles" "\<forall>c\<in>set candles. wellFormed c"
  shows "0 \<le> dx_at period candles i \<and> dx_at period candles i \<le> 100"
proof -
  from plusDI_range[OF assms] have p: "0 \<le> plusDI_at period candles i" by simp
  from minusDI_range[OF assms] have m: "0 \<le> minusDI_at period candles i" by simp
  from p m have "\<bar>plusDI_at period candles i - minusDI_at period candles i\<bar>
                   \<le> plusDI_at period candles i + minusDI_at period candles i"
    by simp
  with ratio_range[of "\<bar>plusDI_at period candles i - minusDI_at period candles i\<bar>"
      "plusDI_at period candles i + minusDI_at period candles i"]
  show ?thesis by (simp add: dx_at_def Let_def)
qed

lemma adx_range:
  assumes "1 \<le> period" "i < length candles" "\<forall>c\<in>set candles. wellFormed c"
  shows "0 \<le> ema (smoothing period) (dx_at period candles) i \<and>
         ema (smoothing period) (dx_at period candles) i \<le> 100"
proof -
  note a = smoothing_range[OF assms(1)]
  from assms have "\<forall>j\<le>i. 0 \<le> dx_at period candles j \<and> dx_at period candles j \<le> 100"
    by (simp add: dx_range)
  with a show ?thesis by (simp add: ema_nonneg ema_le)
qed

text \<open>
  Claim C6: for a calculator with a period of at least 1 (the engine builds it with 14)
  and a series of well-formed candles, every value of the ADX, +DI and -DI series that
  \<open>ADX_Calculate\<close> returns lies between 0 and 100.
\<close>

theorem ADX_series_within_0_100:
  assumes "1 \<le> period"
    and "\<forall>c\<in>set candles. wellFormed c"
    and "ADX_Calculate period candles = (adx, plusDI, minusDI)"
  shows "\<forall>v \<in> set adx \<union> set plusDI \<union> set minusDI. 0 \<le> v \<and> v \<le> 100"
proof (cases "length candles < 2")
  case True
  with assms(3) show ?thesis by (auto simp: ADX_Calculate_def Let_def)
next
  case False
  with assms(3) have "adx = map (ema (smoothing period) (dx_at period candles)) [0..<length candles]"
    and "plusDI = map (plusDI_at period candles) [0..<length candles]"
    and "minusDI = map (minusDI_at period candles) [0..<length candles]"
    by (auto simp: ADX_Calculate_def Let_def)
  with assms(1,2) show ?thesis
    by (auto simp: adx_range plusDI_range minusDI_range)
qed

theorem ADX_series_within_0_100_witness:
  "(1::int) \<le> 14 \<and> list_all wellFormed spec3 \<and>
   ADX_Calculate 14 spec3 = ([0, 40 / 3, 6512 / 387], [0, 20 / 3, 65 / 12], [0, 0, 25 / 2]) \<and>
   list_all (\<lambda>v. (0::real) \<le> v \<and> v \<le> 100)
     ([0, 40 / 3, 6512 / 387] @ [0, 20 / 3, 65 / 12] @ [0, 0, 25 / 2])"
proof -
  have p: "(1::int) \<le> 14" by simp
  have w: "\<forall>c\<in>set spec3. wellFormed c"
    by (simp add: spec3_def mkCandle_def wellFormed_def)
  have r: "ADX_Calculate 14 spec3
             = ([0, 40 / 3, 6512 / 387], [0, 20 / 3, 65 / 12], [0, 0, 25 / 2])"
    by (simp add: ADX_Calculate_def plusDI_at_def minusDI_at_def dx_at_def smoothedPlusDM_def
        smoothedMinusDM_def smoothedTR_def plusDM_def minusDM_def trueRange_def smoothing_def
        upt_conv_Cons Let_def numeral_2_eq_2 numeral_3_eq_3 spec3_def mkCandle_def)
  from ADX_series_within_0_100[OF p w r]
  have "list_all (\<lambda>v. (0::real) \<le> v \<and> v \<le> 100)
          ([0, 40 / 3, 6512 / 387] @ [0, 20 / 3, 65 / 12] @ [0, 0, 25 / 2])"
    unfolding list_all_iff by auto
  with p w r show ?thesis by (simp add: list_all_iff)
qed

end
